theory Spec2Isabelle
  imports Main "HOL-Library.Word"
begin

section \<open>JavaScript values and objects\<close>

text \<open>
  The converters build plain JavaScript objects and merge free-form metadata bags into
  them with the spread operator, so an output message is modelled as the object the code
  builds: an association list of property names and values, in the order the properties
  were created. A number is only ever passed through (metadata, tool arguments), never
  computed with.
\<close>

datatype jsvalue =
    JUndefined
  | JNull
  | JBool bool
  | JNumber int
  | JString string
  | JArray "jsvalue list"
  | JObject "(string \<times> jsvalue) list"

type_synonym object = "(string \<times> jsvalue) list"

text \<open>Assigning a property: an existing key keeps its place and takes the new value.\<close>

fun set_prop :: "string \<Rightarrow> jsvalue \<Rightarrow> object \<Rightarrow> object" where
  "set_prop k v [] = [(k, v)]"
| "set_prop k v ((k', v') # ps) =
     (if k = k' then (k, v) # ps else (k', v') # set_prop k v ps)"

text \<open>
  The order in which an object's own properties are enumerated: the keys that are array
  indices first (a canonical decimal numeral below \<open>2^32 - 1 = 4294967295\<close>), in ascending
  numeric order, then the other keys in the order of their creation.
\<close>

definition isDigit :: "char \<Rightarrow> bool" where
  "isDigit c = (48 \<le> (of_char c :: int) \<and> (of_char c :: int) \<le> 57)"

definition decimalValue :: "string \<Rightarrow> int" where
  "decimalValue k = foldl (\<lambda>n c. 10 * n + (of_char c - 48)) 0 k"

definition arrayIndex :: "string \<Rightarrow> int option" where
  "arrayIndex k =
     (if k \<noteq> [] \<and> list_all isDigit k \<and> (k = ''0'' \<or> hd k \<noteq> CHR ''0'')
         \<and> decimalValue k < 4294967295
      then Some (decimalValue k) else None)"

definition ownProperties :: "object \<Rightarrow> object" where
  "ownProperties ob =
     sort_key (\<lambda>(k, v). case arrayIndex k of None \<Rightarrow> 0 | Some n \<Rightarrow> n)
       (filter (\<lambda>(k, v). arrayIndex k \<noteq> None) ob)
     @ filter (\<lambda>(k, v). arrayIndex k = None) ob"

text \<open>
  \<^verbatim>\<open>{ ...base, ...extra }\<close>: the properties of \<open>extra\<close> are assigned in the order
  of their enumeration.
\<close>

definition spread :: "object \<Rightarrow> object \<Rightarrow> object" where
  "spread base extra = foldl (\<lambda>ob (k, v). set_prop k v ob) base (ownProperties extra)"

text \<open>Reading a property: a missing key reads as \<^verbatim>\<open>undefined\<close>.\<close>

definition get_prop :: "object \<Rightarrow> string \<Rightarrow> jsvalue" where
  "get_prop ob k = (case map_of ob k of None \<Rightarrow> JUndefined | Some v \<Rightarrow> v)"

text \<open>The truthiness test of \<^verbatim>\<open>x ? a : b\<close>.\<close>

fun truthy :: "jsvalue \<Rightarrow> bool" where
  "truthy JUndefined = False"
| "truthy JNull = False"
| "truthy (JBool b) = b"
| "truthy (JNumber n) = (n \<noteq> 0)"
| "truthy (JString s) = (s \<noteq> [])"
| "truthy (JArray xs) = True"
| "truthy (JObject ps) = True"

section \<open>Errors\<close>

text \<open>
  Every \<^verbatim>\<open>throw\<close> of the source is a value of this type, with the message the source
  builds. \<open>TypeError\<close> is what the runtime raises when a property is read from
  \<^verbatim>\<open>undefined\<close> (the first element of an empty array).
\<close>

datatype error =
    TypeError
  | Error string
  | InvalidPromptError string
  | UnsupportedFunctionalityError string
  | InvalidResponseDataError string

section \<open>The prompt (LanguageModelV1Prompt)\<close>

text \<open>
  \<^verbatim>\<open>providerMetadata\<close> is an optional record from provider names to metadata bags.
  The unions below are the declared TypeScript unions; the \<^verbatim>\<open>default\<close> branches
  the source guards with a \<^verbatim>\<open>never\<close> type have no constructor here.
\<close>

type_synonym provider_metadata = "(string \<times> object) list option"

datatype image_data = ImageURL string | ImageBytes "8 word list"

datatype user_part =
    UText string provider_metadata
  | UImage image_data "string option" provider_metadata
  | UFile string string provider_metadata

datatype assistant_part =
    AText string provider_metadata
  | AToolCall string string jsvalue provider_metadata

record tool_result_part =
  toolCallId :: string
  toolName :: string
  result :: jsvalue
  resultMetadata :: provider_metadata

datatype message =
    System string provider_metadata
  | User "user_part list" provider_metadata
  | Assistant "assistant_part list" provider_metadata
  | Tool "tool_result_part list" provider_metadata

definition nl :: char where
  "nl = CHR 0x0A"

section \<open>convert-to-spark-message.ts\<close>

definition getSparkMetadata :: "provider_metadata \<Rightarrow> object" where
  "getSparkMetadata pm =
     (case pm of
        None \<Rightarrow> []
      | Some bags \<Rightarrow> (case map_of bags ''spark'' of None \<Rightarrow> [] | Some bag \<Rightarrow> bag))"

text \<open>
  \<^verbatim>\<open>Array.prototype.map\<close> with a callback that may throw: the first throw ends it.
\<close>

fun array_map :: "('a \<Rightarrow> error + 'b) \<Rightarrow> 'a list \<Rightarrow> error + 'b list" where
  "array_map f [] = Inr []"
| "array_map f (x # xs) =
     (case f x of
        Inl e \<Rightarrow> Inl e
      | Inr y \<Rightarrow> (case array_map f xs of Inl e \<Rightarrow> Inl e | Inr ys \<Rightarrow> Inr (y # ys)))"

text \<open>
  The callback of the user branch. \<open>toBase64\<close> stands for
  \<^verbatim>\<open>convertUint8ArrayToBase64\<close> of the utilities package.
\<close>

fun convertUserPart :: "(8 word list \<Rightarrow> string) \<Rightarrow> user_part \<Rightarrow> error + jsvalue" where
  "convertUserPart toBase64 (UText text pm) =
     Inr (JObject (spread [(''type'', JString ''text''), (''text'', JString text)]
                          (getSparkMetadata pm)))"
| "convertUserPart toBase64 (UImage img mimeType pm) =
     Inr (JObject (spread
       [(''type'', JString ''image_url''),
        (''image_url'', JObject [(''url'', JString
           (case img of
              ImageURL url \<Rightarrow> url
            | ImageBytes bytes \<Rightarrow>
                ''data:'' @ (case mimeType of None \<Rightarrow> ''image/jpeg'' | Some m \<Rightarrow> m)
                  @ '';base64,'' @ toBase64 bytes))])]
       (getSparkMetadata pm)))"
| "convertUserPart toBase64 (UFile fileData mimeType pm) =
     Inl (UnsupportedFunctionalityError ''File content parts in user messages'')"

text \<open>
  \<open>stringify\<close> stands for \<^verbatim>\<open>JSON.stringify\<close>, which gives a string, or
  \<^verbatim>\<open>undefined\<close> (\<open>None\<close>) for a value that has no JSON text, such as
  \<^verbatim>\<open>undefined\<close> itself.
\<close>

definition jsonText :: "string option \<Rightarrow> jsvalue" where
  "jsonText r = (case r of None \<Rightarrow> JUndefined | Some s \<Rightarrow> JString s)"

text \<open>
  The inner loop of the assistant branch over the parts, on the two local variables
  \<open>text\<close> and \<open>toolCalls\<close>.
\<close>

fun assistantParts ::
  "(jsvalue \<Rightarrow> string option) \<Rightarrow> string \<times> jsvalue \<Rightarrow> assistant_part list \<Rightarrow> string \<times> jsvalue" where
  "assistantParts stringify (text, toolCalls) [] = (text, toolCalls)"
| "assistantParts stringify (text, toolCalls) (AText t pm # parts) =
     assistantParts stringify (text @ t, toolCalls) parts"
| "assistantParts stringify (text, toolCalls) (AToolCall callId name args pm # parts) =
     assistantParts stringify
       (text,
        JObject (spread
          [(''type'', JString ''function''),
           (''function'', JObject [(''name'', JString name),
                                   (''arguments'', jsonText (stringify args))])]
          (getSparkMetadata pm)))
       parts"

definition initialToolCalls :: jsvalue where
  "initialToolCalls =
     JObject [(''type'', JString ''function''),
              (''function'', JObject [(''arguments'', JString ''''), (''name'', JString '''')])]"

definition toolMessage :: "(jsvalue \<Rightarrow> string option) \<Rightarrow> tool_result_part \<Rightarrow> object" where
  "toolMessage stringify toolResponse =
     spread [(''role'', JString ''tool''),
             (''tool_call_id'', JString (toolCallId toolResponse)),
             (''content'', jsonText (stringify (result toolResponse)))]
            (getSparkMetadata (resultMetadata toolResponse))"

text \<open>The messages one prompt message pushes.\<close>

fun convertMessage ::
  "(jsvalue \<Rightarrow> string option) \<Rightarrow> (8 word list \<Rightarrow> string) \<Rightarrow> message \<Rightarrow> error + object list" where
  "convertMessage stringify toBase64 (System content pm) =
     Inr [spread [(''role'', JString ''system''), (''content'', JString content)]
                 (getSparkMetadata pm)]"
| "convertMessage stringify toBase64 (User content pm) =
     (case content of
        [UText text partMeta] \<Rightarrow>
          Inr [spread [(''role'', JString ''user''), (''content'', JString text)]
                      (getSparkMetadata partMeta)]
      | _ \<Rightarrow>
          (case array_map (convertUserPart toBase64) content of
             Inl e \<Rightarrow> Inl e
           | Inr parts \<Rightarrow>
               Inr [spread [(''role'', JString ''user''), (''content'', JArray parts)]
                           (getSparkMetadata pm)]))"
| "convertMessage stringify toBase64 (Assistant content pm) =
     (case assistantParts stringify ('''', initialToolCalls) content of
        (text, toolCalls) \<Rightarrow>
          Inr [spread [(''role'', JString ''assistant''),
                       (''content'', JString text),
                       (''tool_calls'', if truthy toolCalls then toolCalls else JUndefined)]
                      (getSparkMetadata pm)])"
| "convertMessage stringify toBase64 (Tool content pm) =
     Inr (map (toolMessage stringify) content)"

text \<open>The outer loop, on the array \<open>messages\<close> it pushes to.\<close>

fun convertLoop ::
  "(jsvalue \<Rightarrow> string option) \<Rightarrow> (8 word list \<Rightarrow> string) \<Rightarrow> object list \<Rightarrow> message list
     \<Rightarrow> error + object list" where
  "convertLoop stringify toBase64 messages [] = Inr messages"
| "convertLoop stringify toBase64 messages (m # prompt) =
     (case convertMessage stringify toBase64 m of
        Inl e \<Rightarrow> Inl e
      | Inr pushed \<Rightarrow> convertLoop stringify toBase64 (messages @ pushed) prompt)"

definition convertToSparkChatMessages ::
  "(jsvalue \<Rightarrow> string option) \<Rightarrow> (8 word list \<Rightarrow> string) \<Rightarrow> message list \<Rightarrow> error + object list" where
  "convertToSparkChatMessages stringify toBase64 prompt =
     convertLoop stringify toBase64 [] prompt"

section \<open>convert-to-spark-completion-prompt.ts\<close>

datatype input_format = PromptFormat | MessagesFormat

record completion_prompt =
  prompt :: string
  stopSequences :: "string list option"

fun userPartText :: "user_part \<Rightarrow> error + string" where
  "userPartText (UText text pm) = Inr text"
| "userPartText (UImage img mimeType pm) = Inl (UnsupportedFunctionalityError ''images'')"
| "userPartText (UFile fileData mimeType pm) =
     Inl (Error ''Unsupported content part type: file'')"

fun assistantPartText :: "assistant_part \<Rightarrow> error + string" where
  "assistantPartText (AText text pm) = Inr text"
| "assistantPartText (AToolCall callId name args pm) =
     Inl (UnsupportedFunctionalityError ''tool-call messages'')"

text \<open>The loop over the messages, on the local variable \<open>text\<close>.\<close>

fun renderLoop :: "string \<Rightarrow> string \<Rightarrow> string \<Rightarrow> message list \<Rightarrow> error + string" where
  "renderLoop user assistant text [] = Inr text"
| "renderLoop user assistant text (System content pm # rest) =
     Inl (InvalidPromptError (''Unexpected system message in prompt: '' @ content))"
| "renderLoop user assistant text (User content pm # rest) =
     (case array_map userPartText content of
        Inl e \<Rightarrow> Inl e
      | Inr parts \<Rightarrow>
          renderLoop user assistant
            (text @ user @ '':'' @ [nl] @ concat parts @ [nl, nl]) rest)"
| "renderLoop user assistant text (Assistant content pm # rest) =
     (case array_map assistantPartText content of
        Inl e \<Rightarrow> Inl e
      | Inr parts \<Rightarrow>
          renderLoop user assistant
            (text @ assistant @ '':'' @ [nl] @ concat parts @ [nl, nl]) rest)"
| "renderLoop user assistant text (Tool content pm # rest) =
     Inl (UnsupportedFunctionalityError ''tool messages'')"

text \<open>What the fast path's test reads of the first message and of its first part.\<close>

fun isUser :: "message \<Rightarrow> bool" where
  "isUser (User content pm) = True"
| "isUser m = False"

fun userContent :: "message \<Rightarrow> user_part list" where
  "userContent (User content pm) = content"
| "userContent m = []"

fun isTextPart :: "user_part \<Rightarrow> bool" where
  "isTextPart (UText text pm) = True"
| "isTextPart p = False"

fun partText :: "user_part \<Rightarrow> string" where
  "partText (UText text pm) = text"
| "partText p = []"

text \<open>
  The two labels are optional arguments with defaults. Past the fast path, reading
  \<^verbatim>\<open>prompt[0].role\<close> of an empty prompt raises the runtime's TypeError.
\<close>

definition convertToSparkCompletionPrompt ::
  "message list \<Rightarrow> input_format \<Rightarrow> string option \<Rightarrow> string option
     \<Rightarrow> error + completion_prompt" where
  "convertToSparkCompletionPrompt prompt0 inputFormat userArg assistantArg =
     (let user = (case userArg of None \<Rightarrow> ''user'' | Some u \<Rightarrow> u);
          assistant = (case assistantArg of None \<Rightarrow> ''assistant'' | Some a \<Rightarrow> a)
      in if inputFormat = PromptFormat
            \<and> length prompt0 = 1
            \<and> isUser (prompt0 ! 0)
            \<and> length (userContent (prompt0 ! 0)) = 1
            \<and> isTextPart (userContent (prompt0 ! 0) ! 0)
         then Inr \<lparr>prompt = partText (userContent (prompt0 ! 0) ! 0), stopSequences = None\<rparr>
         else
           (case prompt0 of
              [] \<Rightarrow> Inl TypeError
            | m # rest \<Rightarrow>
                (case (case m of
                         System content pm \<Rightarrow> (content @ [nl, nl], rest)
                       | _ \<Rightarrow> ([], prompt0)) of
                   (text, remaining) \<Rightarrow>
                     (case renderLoop user assistant text remaining of
                        Inl e \<Rightarrow> Inl e
                      | Inr rendered \<Rightarrow>
                          Inr \<lparr>prompt = rendered @ assistant @ '':'' @ [nl],
                               stopSequences = Some [[nl] @ user @ '':'']\<rparr>))))"

section \<open>map-spark-finish-reason.ts and get-response-metadata.ts\<close>

datatype finish_reason = Stop | Length | ContentFilter | ToolCalls | ErrorReason | Other | Unknown

text \<open>The argument is \<^verbatim>\<open>string | null | undefined\<close>: \<open>None\<close> is either absence.\<close>

definition mapSparkFinishReason :: "string option \<Rightarrow> finish_reason" where
  "mapSparkFinishReason finishReason =
     (if finishReason = Some ''stop'' then Stop
      else if finishReason = Some ''length'' then Length
      else if finishReason = Some ''tool_calls'' then ToolCalls
      else Unknown)"

text \<open>
  \<open>created\<close> is in seconds; the timestamp is the argument of \<^verbatim>\<open>new Date\<close>, in
  milliseconds.
\<close>

record response_metadata =
  meta_id :: "string option"
  modelId :: "string option"
  timestamp :: "int option"

definition getResponseMetadata ::
  "string option \<Rightarrow> string option \<Rightarrow> int option \<Rightarrow> response_metadata" where
  "getResponseMetadata ident model created =
     \<lparr>meta_id = ident,
      modelId = model,
      timestamp = (case created of None \<Rightarrow> None | Some c \<Rightarrow> Some (c * 1000))\<rparr>"

section \<open>spark-prepare-tools.ts\<close>

datatype tool =
    FunctionTool string "string option" jsvalue
  | ProviderDefinedTool string string jsvalue

datatype tool_choice = Auto | NoneChoice | Required | ToolChoice string

record regular_mode =
  mode_tools :: "tool list option"
  mode_toolChoice :: "tool_choice option"

datatype call_warning =
    UnsupportedTool tool
  | UnsupportedSetting string "string option"

record spark_tool =
  function_name :: string
  function_description :: "string option"
  function_parameters :: jsvalue

datatype spark_tool_choice =
    ChoiceAuto
  | ChoiceNone
  | ChoiceRequired
  | ChoiceFunction string

record prepared_tools =
  tools :: "spark_tool list option"
  tool_choice :: "spark_tool_choice option"
  toolWarnings :: "call_warning list"

text \<open>The loop over the tools, on the two arrays it pushes to.\<close>

fun toolsLoop ::
  "spark_tool list \<times> call_warning list \<Rightarrow> tool list \<Rightarrow> spark_tool list \<times> call_warning list" where
  "toolsLoop (sparkCompatTools, warnings) [] = (sparkCompatTools, warnings)"
| "toolsLoop (sparkCompatTools, warnings) (ProviderDefinedTool ident name args # rest) =
     toolsLoop
       (sparkCompatTools, warnings @ [UnsupportedTool (ProviderDefinedTool ident name args)])
       rest"
| "toolsLoop (sparkCompatTools, warnings) (FunctionTool name description parameters # rest) =
     toolsLoop
       (sparkCompatTools @
          [\<lparr>function_name = name, function_description = description,
            function_parameters = parameters\<rparr>],
        warnings)
       rest"

definition prepareTools :: "regular_mode \<Rightarrow> prepared_tools" where
  "prepareTools mode =
     (case (case mode_tools mode of
              None \<Rightarrow> None
            | Some ts \<Rightarrow> if length ts \<noteq> 0 then Some ts else None) of
        None \<Rightarrow> \<lparr>tools = None, tool_choice = None, toolWarnings = []\<rparr>
      | Some ts \<Rightarrow>
          (case toolsLoop ([], []) ts of
             (sparkCompatTools, warnings) \<Rightarrow>
               (case mode_toolChoice mode of
                  None \<Rightarrow>
                    \<lparr>tools = Some sparkCompatTools, tool_choice = None,
                     toolWarnings = warnings\<rparr>
                | Some Auto \<Rightarrow>
                    \<lparr>tools = Some sparkCompatTools, tool_choice = Some ChoiceAuto,
                     toolWarnings = warnings\<rparr>
                | Some NoneChoice \<Rightarrow>
                    \<lparr>tools = Some sparkCompatTools, tool_choice = Some ChoiceNone,
                     toolWarnings = warnings\<rparr>
                | Some Required \<Rightarrow>
                    \<lparr>tools = Some sparkCompatTools, tool_choice = Some ChoiceRequired,
                     toolWarnings = warnings\<rparr>
                | Some (ToolChoice name) \<Rightarrow>
                    \<lparr>tools = Some sparkCompatTools, tool_choice = Some (ChoiceFunction name),
                     toolWarnings = warnings\<rparr>)))"

section \<open>The non-stream decoders (doGenerate)\<close>

text \<open>
  A JavaScript number that is either the not-a-number sentinel or a number of the
  response. The response schema admits no not-a-number, so a reported count is never
  the sentinel.
\<close>

datatype jsnumber = NaN | Num int

record token_usage =
  promptTokens :: jsnumber
  completionTokens :: jsnumber

datatype tool_call = FunctionToolCall string string string

record generate_result =
  result_text :: "string option"
  result_toolCalls :: "tool_call list option"
  result_finishReason :: finish_reason
  result_usage :: token_usage
  result_providerMetadata :: provider_metadata
  result_response :: response_metadata

text \<open>The chat response body, as its schema validates it.\<close>

record usage_data =
  prompt_tokens :: "int option"
  completion_tokens :: "int option"

record response_tool_call =
  rtc_id :: "string option"
  rtc_name :: string
  rtc_arguments :: string

record response_message =
  msg_content :: "string option"
  msg_reasoning_content :: "string option"
  msg_tool_calls :: "response_tool_call option"

record response_choice =
  choice_message :: response_message
  choice_finish_reason :: "string option"

record chat_response =
  resp_id :: "string option"
  resp_created :: "int option"
  resp_model :: "string option"
  resp_choices :: "response_choice list"
  resp_usage :: "usage_data option"

text \<open>
  The part of the chat model's \<open>doGenerate\<close> after the HTTP call: from the validated
  body to the result (the fields echoing the request are left out). \<open>generateId\<close> is
  the id supply of the utilities package, by call number; \<open>extractMetadata\<close> is the
  configured metadata extractor, if any. An empty \<open>choices\<close> array makes
  \<^verbatim>\<open>choice.message\<close> a TypeError.
\<close>

definition chat_doGenerate ::
  "(nat \<Rightarrow> string) \<Rightarrow> (chat_response \<Rightarrow> provider_metadata) option \<Rightarrow> chat_response
     \<Rightarrow> error + generate_result" where
  "chat_doGenerate generateId extractMetadata responseBody =
     (case resp_choices responseBody of
        [] \<Rightarrow> Inl TypeError
      | choice # others \<Rightarrow>
          Inr \<lparr>result_text = msg_content (choice_message choice),
               result_toolCalls =
                 (case msg_tool_calls (choice_message choice) of
                    None \<Rightarrow> None
                  | Some tc \<Rightarrow>
                      Some [FunctionToolCall
                              (case rtc_id tc of None \<Rightarrow> generateId 0 | Some i \<Rightarrow> i)
                              (rtc_name tc) (rtc_arguments tc)]),
               result_finishReason = mapSparkFinishReason (choice_finish_reason choice),
               result_usage =
                 \<lparr>promptTokens =
                    (case resp_usage responseBody of
                       None \<Rightarrow> NaN
                     | Some u \<Rightarrow> (case prompt_tokens u of None \<Rightarrow> NaN | Some n \<Rightarrow> Num n)),
                  completionTokens =
                    (case resp_usage responseBody of
                       None \<Rightarrow> NaN
                     | Some u \<Rightarrow> (case completion_tokens u of None \<Rightarrow> NaN | Some n \<Rightarrow> Num n))\<rparr>,
               result_providerMetadata =
                 (case extractMetadata of None \<Rightarrow> None | Some f \<Rightarrow> f responseBody),
               result_response =
                 getResponseMetadata (resp_id responseBody) (resp_model responseBody)
                   (resp_created responseBody)\<rparr>)"

text \<open>The completion response body: its usage object, when present, has both counters.\<close>

record completion_usage =
  cu_prompt_tokens :: int
  cu_completion_tokens :: int

record completion_choice =
  cc_text :: string
  cc_finish_reason :: string

record completion_response =
  cr_id :: "string option"
  cr_created :: "int option"
  cr_model :: "string option"
  cr_choices :: "completion_choice list"
  cr_usage :: "completion_usage option"

definition completion_doGenerate :: "completion_response \<Rightarrow> error + generate_result" where
  "completion_doGenerate response =
     (case cr_choices response of
        [] \<Rightarrow> Inl TypeError
      | choice # others \<Rightarrow>
          Inr \<lparr>result_text = Some (cc_text choice),
               result_toolCalls = None,
               result_finishReason = mapSparkFinishReason (Some (cc_finish_reason choice)),
               result_usage =
                 \<lparr>promptTokens =
                    (case cr_usage response of None \<Rightarrow> NaN | Some u \<Rightarrow> Num (cu_prompt_tokens u)),
                  completionTokens =
                    (case cr_usage response of
                       None \<Rightarrow> NaN
                     | Some u \<Rightarrow> Num (cu_completion_tokens u))\<rparr>,
               result_providerMetadata = None,
               result_response =
                 getResponseMetadata (cr_id response) (cr_model response) (cr_created response)\<rparr>)"

section \<open>The chat model's doStream\<close>

text \<open>
  The stream parts the model emits. An error part carries an unknown value: the parse
  failure of the chunk, or the message string of an error the vendor sent as data.
\<close>

datatype stream_part =
    ResponseMetadata response_metadata
  | TextDelta string
  | ToolCallDelta string string string
  | ToolCallPart tool_call
  | ErrorPart jsvalue
  | Finish finish_reason token_usage provider_metadata

subsection \<open>Simulated streaming\<close>

text \<open>
  With \<open>simulateStreaming\<close> set, \<open>doStream\<close> awaits \<open>doGenerate\<close> and enqueues
  the parts of a stream from its result, in this order.
\<close>

definition simulatedStream :: "generate_result \<Rightarrow> stream_part list" where
  "simulatedStream res =
     (let q0 = [ResponseMetadata (result_response res)];
          q1 = (case result_text res of
                  None \<Rightarrow> q0
                | Some t \<Rightarrow> if t \<noteq> [] then q0 @ [TextDelta t] else q0);
          q2 = (case result_toolCalls res of
                  None \<Rightarrow> q1
                | Some calls \<Rightarrow> q1 @ map ToolCallPart calls)
      in q2 @ [Finish (result_finishReason res) (result_usage res)
                      (result_providerMetadata res)])"

definition doStream_simulated ::
  "(nat \<Rightarrow> string) \<Rightarrow> (chat_response \<Rightarrow> provider_metadata) option \<Rightarrow> chat_response
     \<Rightarrow> error + stream_part list" where
  "doStream_simulated generateId extractMetadata responseBody =
     (case chat_doGenerate generateId extractMetadata responseBody of
        Inl e \<Rightarrow> Inl e
      | Inr res \<Rightarrow> Inr (simulatedStream res))"

subsection \<open>The chunks\<close>

text \<open>
  A chunk as the chunk schema validates it. The type of a tool-call delta is the literal
  \<^verbatim>\<open>"function"\<close> or absent. The schema requires \<open>tool_calls\<close> in a delta; the code
  tests it against null all the same, so it is optional here.
\<close>

datatype tool_type = Function

record function_delta =
  fn_name :: "string option"
  fn_arguments :: "string option"

record tool_call_delta =
  dtc_id :: "string option"
  dtc_type :: "tool_type option"
  dtc_function :: function_delta

record delta =
  delta_content :: "string option"
  delta_reasoning_content :: "string option"
  delta_tool_calls :: "tool_call_delta option"

record chunk_choice =
  choice_delta :: "delta option"
  chunk_finish_reason :: "string option"

record chunk =
  chunk_id :: "string option"
  chunk_created :: "int option"
  chunk_model :: "string option"
  chunk_choices :: "chunk_choice list"
  chunk_usage :: "usage_data option"

text \<open>
  A validated value is a chunk or an object of the configured error schema. Such an
  object has none of a chunk's fields; \<open>ErrorValue (Some m)\<close> has an \<open>error\<close> property
  with message \<open>m\<close>, \<open>ErrorValue None\<close> has no \<open>error\<close> property (as the objects of
  the default error schema).
\<close>

datatype chunk_value = ChunkValue chunk | ErrorValue "string option"

datatype parse_result = Success chunk_value | Failure jsvalue

subsection \<open>The state the transform closes over\<close>

record tool_call_acc =
  acc_id :: string
  acc_name :: string
  acc_arguments :: string
  hasFinished :: bool

record usage_snapshot =
  snap_promptTokens :: "int option"
  snap_completionTokens :: "int option"

text \<open>
  Besides the four variables of the source: the parts enqueued on the controller so
  far, the number of calls of \<open>generateId\<close>, and the values handed to the metadata
  extractor's \<open>processChunk\<close>.
\<close>

record stream_state =
  toolCalls :: "tool_call_acc list"
  finishReason :: finish_reason
  usage :: usage_snapshot
  isFirstChunk :: bool
  enqueued :: "stream_part list"
  generated :: nat
  processed :: "chunk_value list"

definition initialState :: stream_state where
  "initialState =
     \<lparr>toolCalls = [],
      finishReason = Unknown,
      usage = \<lparr>snap_promptTokens = None, snap_completionTokens = None\<rparr>,
      isFirstChunk = True,
      enqueued = [],
      generated = 0,
      processed = []\<rparr>"

definition enqueue :: "stream_part \<Rightarrow> stream_state \<Rightarrow> stream_state" where
  "enqueue part st = st\<lparr>enqueued := enqueued st @ [part]\<rparr>"

text \<open>\<^verbatim>\<open>toolCalls[0] = x\<close>: an empty array grows to one element.\<close>

fun assignSlot0 :: "tool_call_acc \<Rightarrow> tool_call_acc list \<Rightarrow> tool_call_acc list" where
  "assignSlot0 x [] = [x]"
| "assignSlot0 x (y # ys) = x # ys"

subsection \<open>The transform\<close>

text \<open>
  The branch of the transform for a delta with \<open>tool_calls\<close>. \<open>isParsableJson\<close> is
  the test of the utilities package. The local \<open>toolCall\<close> is the object just stored in
  slot 0, so the slot ends with the value the local has at the end. The result is the
  state and the error thrown, if any.
\<close>

definition processToolCalls ::
  "(string \<Rightarrow> bool) \<Rightarrow> (nat \<Rightarrow> string) \<Rightarrow> tool_call_delta \<Rightarrow> stream_state
     \<Rightarrow> stream_state \<times> error option" where
  "processToolCalls isParsableJson generateId tc st =
     (if dtc_type tc \<noteq> Some Function then
        (st, Some (InvalidResponseDataError
                     (''Expected '' @ [CHR 0x27] @ ''function'' @ [CHR 0x27] @ '' type.'')))
      else case fn_name (dtc_function tc) of
        None \<Rightarrow>
          (st, Some (InvalidResponseDataError
                       (''Expected '' @ [CHR 0x27] @ ''function.name'' @ [CHR 0x27]
                          @ '' to be a string.'')))
      | Some name \<Rightarrow>
          (let (callId, st1) =
                 (case dtc_id tc of
                    Some i \<Rightarrow> (i, st)
                  | None \<Rightarrow> (generateId (generated st), st\<lparr>generated := Suc (generated st)\<rparr>));
               toolCall0 =
                 \<lparr>acc_id = callId, acc_name = name,
                  acc_arguments = (case fn_arguments (dtc_function tc) of
                                     None \<Rightarrow> [] | Some a \<Rightarrow> a),
                  hasFinished = False\<rparr>;
               st2 = (if length (acc_arguments toolCall0) > 0
                      then enqueue (ToolCallDelta callId name (acc_arguments toolCall0)) st1
                      else st1);
               (toolCall1, st3) =
                 (if isParsableJson (acc_arguments toolCall0)
                  then (toolCall0\<lparr>hasFinished := True\<rparr>,
                        enqueue (ToolCallPart
                          (FunctionToolCall callId name (acc_arguments toolCall0))) st2)
                  else (toolCall0, st2));
               toolCall2 =
                 (case fn_arguments (dtc_function tc) of
                    None \<Rightarrow> toolCall1
                  | Some a \<Rightarrow> toolCall1\<lparr>acc_arguments := acc_arguments toolCall1 @ a\<rparr>);
               st4 = enqueue (ToolCallDelta callId name
                        (case fn_arguments (dtc_function tc) of None \<Rightarrow> [] | Some a \<Rightarrow> a)) st3;
               (toolCall3, st5) =
                 (if isParsableJson (acc_arguments toolCall2)
                  then (toolCall2\<lparr>hasFinished := True\<rparr>,
                        enqueue (ToolCallPart
                          (FunctionToolCall callId name (acc_arguments toolCall2))) st4)
                  else (toolCall2, st4))
           in (st5\<lparr>toolCalls := assignSlot0 toolCall3 (toolCalls st5)\<rparr>, None)))"

text \<open>The transform on a validated chunk.\<close>

definition processChunk ::
  "(string \<Rightarrow> bool) \<Rightarrow> (nat \<Rightarrow> string) \<Rightarrow> chunk \<Rightarrow> stream_state
     \<Rightarrow> stream_state \<times> error option" where
  "processChunk isParsableJson generateId c st =
     (let st1 = (if isFirstChunk st
                 then enqueue (ResponseMetadata
                        (getResponseMetadata (chunk_id c) (chunk_model c) (chunk_created c)))
                        (st\<lparr>isFirstChunk := False\<rparr>)
                 else st);
          st2 = (case chunk_usage c of
                   None \<Rightarrow> st1
                 | Some u \<Rightarrow>
                     st1\<lparr>usage := \<lparr>snap_promptTokens = prompt_tokens u,
                                    snap_completionTokens = completion_tokens u\<rparr>\<rparr>)
      in case chunk_choices c of
           [] \<Rightarrow> (st2, None)
         | choice # others \<Rightarrow>
             (case choice_delta choice of
                None \<Rightarrow> (st2, None)
              | Some d \<Rightarrow>
                  (let st3 = (case delta_content d of
                                None \<Rightarrow> st2
                              | Some t \<Rightarrow> enqueue (TextDelta t) st2)
                   in case delta_tool_calls d of
                        None \<Rightarrow> (st3, None)
                      | Some tc \<Rightarrow> processToolCalls isParsableJson generateId tc st3)))"

text \<open>
  The transform. A value of the error schema without an \<open>error\<close> property runs on as
  a chunk would: it has no id, model, created or usage, and reading
  \<^verbatim>\<open>value.choices[0]\<close> raises the TypeError.
\<close>

definition transform ::
  "(string \<Rightarrow> bool) \<Rightarrow> (nat \<Rightarrow> string) \<Rightarrow> stream_state \<Rightarrow> parse_result
     \<Rightarrow> stream_state \<times> error option" where
  "transform isParsableJson generateId st parsed =
     (case parsed of
        Failure err \<Rightarrow> (enqueue (ErrorPart err) (st\<lparr>finishReason := ErrorReason\<rparr>), None)
      | Success val \<Rightarrow>
          (let st0 = st\<lparr>processed := processed st @ [val]\<rparr>
           in case val of
                ErrorValue (Some msg) \<Rightarrow>
                  (enqueue (ErrorPart (JString msg)) (st0\<lparr>finishReason := ErrorReason\<rparr>), None)
              | ErrorValue None \<Rightarrow>
                  ((if isFirstChunk st0
                    then enqueue (ResponseMetadata (getResponseMetadata None None None))
                           (st0\<lparr>isFirstChunk := False\<rparr>)
                    else st0),
                   Some TypeError)
              | ChunkValue c \<Rightarrow> processChunk isParsableJson generateId c st0))"

text \<open>
  \<open>buildMetadata\<close> is the extractor's, from the values it was handed; \<open>None\<close> when no
  extractor is configured.
\<close>

definition flush ::
  "(chunk_value list \<Rightarrow> provider_metadata) option \<Rightarrow> stream_state \<Rightarrow> stream_state" where
  "flush buildMetadata st =
     enqueue
       (Finish (finishReason st)
          \<lparr>promptTokens = (case snap_promptTokens (usage st) of None \<Rightarrow> NaN | Some n \<Rightarrow> Num n),
           completionTokens =
             (case snap_completionTokens (usage st) of None \<Rightarrow> NaN | Some n \<Rightarrow> Num n)\<rparr>
          (case buildMetadata of None \<Rightarrow> None | Some f \<Rightarrow> f (processed st)))
       st"

text \<open>
  The transform stream over a finite sequence of chunks: the transform runs on each chunk
  in order; an error thrown by it ends the stream there, without the flush; when the
  chunks end, the flush runs.
\<close>

fun transformAll ::
  "(string \<Rightarrow> bool) \<Rightarrow> (nat \<Rightarrow> string) \<Rightarrow> stream_state \<Rightarrow> parse_result list
     \<Rightarrow> stream_state \<times> error option" where
  "transformAll isParsableJson generateId st [] = (st, None)"
| "transformAll isParsableJson generateId st (c # cs) =
     (case transform isParsableJson generateId st c of
        (st', Some e) \<Rightarrow> (st', Some e)
      | (st', None) \<Rightarrow> transformAll isParsableJson generateId st' cs)"

definition doStream ::
  "(string \<Rightarrow> bool) \<Rightarrow> (nat \<Rightarrow> string) \<Rightarrow> (chunk_value list \<Rightarrow> provider_metadata) option
     \<Rightarrow> parse_result list \<Rightarrow> stream_state \<times> error option" where
  "doStream isParsableJson generateId buildMetadata chunks =
     (case transformAll isParsableJson generateId initialState chunks of
        (st, Some e) \<Rightarrow> (st, Some e)
      | (st, None) \<Rightarrow> (flush buildMetadata st, None))"

section \<open>Predicates and observations the statements use\<close>

fun isProviderDefined :: "tool \<Rightarrow> bool" where
  "isProviderDefined (ProviderDefinedTool ident name args) = True"
| "isProviderDefined (FunctionTool name description parameters) = False"

fun isSystem :: "message \<Rightarrow> bool" where
  "isSystem (System content pm) = True"
| "isSystem m = False"

fun isAssistantText :: "assistant_part \<Rightarrow> bool" where
  "isAssistantText (AText text pm) = True"
| "isAssistantText p = False"

text \<open>
  A message the completion converter gets past without an unsupported-functionality
  error: a system message (which is skipped at index 0 and raises the prompt-shape error
  later), or a user or assistant message of text parts only.
\<close>

fun textOnly :: "message \<Rightarrow> bool" where
  "textOnly (System content pm) = True"
| "textOnly (User content pm) = list_all isTextPart content"
| "textOnly (Assistant content pm) = list_all isAssistantText content"
| "textOnly (Tool content pm) = False"

fun isErrorPart :: "stream_part \<Rightarrow> bool" where
  "isErrorPart (ErrorPart e) = True"
| "isErrorPart p = False"

text \<open>The argument fragments of the tool-call-delta parts of a sequence, in order.\<close>

fun argsTextDeltas :: "stream_part list \<Rightarrow> string list" where
  "argsTextDeltas [] = []"
| "argsTextDeltas (ToolCallDelta callId name argsTextDelta # parts) =
     argsTextDelta # argsTextDeltas parts"
| "argsTextDeltas (p # parts) = argsTextDeltas parts"

text \<open>
  A chunk that carries one tool-call delta of type \<open>function\<close> on its first choice
  and nothing else.
\<close>

definition toolCallChunk :: "string option \<Rightarrow> string option \<Rightarrow> string option \<Rightarrow> chunk" where
  "toolCallChunk ident name args =
     \<lparr>chunk_id = None, chunk_created = None, chunk_model = None,
      chunk_choices =
        [\<lparr>choice_delta =
            Some \<lparr>delta_content = None, delta_reasoning_content = None,
                  delta_tool_calls =
                    Some \<lparr>dtc_id = ident, dtc_type = Some Function,
                          dtc_function = \<lparr>fn_name = name, fn_arguments = args\<rparr>\<rparr>\<rparr>,
          chunk_finish_reason = None\<rparr>],
      chunk_usage = None\<rparr>"

fun isFinish :: "stream_part \<Rightarrow> bool" where
  "isFinish (Finish reason tokens metadata) = True"
| "isFinish p = False"

text \<open>
  The texts of the text parts of an assistant message, in order, and the converted
  object of its last tool-call part, if it has one.
\<close>

fun textsOf :: "assistant_part list \<Rightarrow> string list" where
  "textsOf [] = []"
| "textsOf (AText t pm # parts) = t # textsOf parts"
| "textsOf (AToolCall callId name args pm # parts) = textsOf parts"

fun lastToolCall :: "(jsvalue \<Rightarrow> string option) \<Rightarrow> assistant_part list \<Rightarrow> jsvalue option" where
  "lastToolCall stringify [] = None"
| "lastToolCall stringify (AText t pm # parts) = lastToolCall stringify parts"
| "lastToolCall stringify (AToolCall callId name args pm # parts) =
     (case lastToolCall stringify parts of
        Some later \<Rightarrow> Some later
      | None \<Rightarrow>
          Some (JObject (spread
            [(''type'', JString ''function''),
             (''function'', JObject [(''name'', JString name),
                                     (''arguments'', jsonText (stringify args))])]
            (getSparkMetadata pm))))"

text \<open>Two response bodies: a chat one that reports the prompt count only, a completion one without usage.\<close>

definition sampleChatResponse :: chat_response where
  "sampleChatResponse =
     \<lparr>resp_id = Some ''r1'', resp_created = Some 1700000000, resp_model = Some ''lite'',
      resp_choices =
        [\<lparr>choice_message =
            \<lparr>msg_content = Some ''Hello'', msg_reasoning_content = None,
             msg_tool_calls =
               Some \<lparr>rtc_id = None, rtc_name = ''lookup'', rtc_arguments = ''{}''\<rparr>\<rparr>,
          choice_finish_reason = Some ''tool_calls''\<rparr>],
      resp_usage = Some \<lparr>prompt_tokens = Some 3, completion_tokens = None\<rparr>\<rparr>"

definition sampleCompletionResponse :: completion_response where
  "sampleCompletionResponse =
     \<lparr>cr_id = None, cr_created = None, cr_model = None,
      cr_choices = [\<lparr>cc_text = ''Hello'', cc_finish_reason = ''stop''\<rparr>],
      cr_usage = None\<rparr>"

definition sampleCompletionResponseWithUsage :: completion_response where
  "sampleCompletionResponseWithUsage =
     \<lparr>cr_id = None, cr_created = None, cr_model = None,
      cr_choices = [\<lparr>cc_text = ''Hello'', cc_finish_reason = ''stop''\<rparr>],
      cr_usage = Some \<lparr>cu_prompt_tokens = 5, cu_completion_tokens = 0\<rparr>\<rparr>"

section \<open>The completion prompt's fast path\<close>

text \<open>
  C6. For input format \<open>prompt\<close> and a prompt that is exactly one user message with
  exactly one text part, \<open>convertToSparkCompletionPrompt\<close> returns that text unchanged
  as the prompt and no stop sequences, whatever the labels and the metadata are.
\<close>

theorem fast_path_identity:
  "convertToSparkCompletionPrompt [User [UText text partMeta] pm] PromptFormat userArg assistantArg
     = Inr \<lparr>prompt = text, stopSequences = None\<rparr>"
  by (simp add: convertToSparkCompletionPrompt_def)

section \<open>The tool-schema adapter\<close>

lemma toolsLoop_provider_defined:
  "list_all isProviderDefined ts \<Longrightarrow>
     toolsLoop (acc, warnings) ts = (acc, warnings @ map UnsupportedTool ts)"
proof (induction ts arbitrary: warnings)
  case Nil
  then show ?case by simp
next
  case (Cons t ts)
  then obtain ident name args where t: "t = ProviderDefinedTool ident name args"
    by (cases t) auto
  from Cons show ?case by (simp add: t)
qed

text \<open>
  C10. For a non-empty tool list in which every tool is provider-defined,
  \<open>prepareTools\<close> returns the empty array as tools (not \<open>undefined\<close>), one
  unsupported-tool warning per tool, in order, and the tool choice mapped from the given
  one: absent when none is given, the literal for auto, none and required, the function
  name for a specific tool.
\<close>

theorem provider_defined_tools_dropped:
  assumes "ts \<noteq> []" and "list_all isProviderDefined ts"
  shows "prepareTools \<lparr>mode_tools = Some ts, mode_toolChoice = choice\<rparr> =
           \<lparr>tools = Some [],
            tool_choice =
              (case choice of
                 None \<Rightarrow> None
               | Some Auto \<Rightarrow> Some ChoiceAuto
               | Some NoneChoice \<Rightarrow> Some ChoiceNone
               | Some Required \<Rightarrow> Some ChoiceRequired
               | Some (ToolChoice name) \<Rightarrow> Some (ChoiceFunction name)),
            toolWarnings = map UnsupportedTool ts\<rparr>"
  using assms
  by (simp add: prepareTools_def toolsLoop_provider_defined
           split: option.split tool_choice.split)

theorem provider_defined_tools_dropped_witness:
  "[ProviderDefinedTool ''spark.search'' ''search'' JNull,
    ProviderDefinedTool ''spark.code'' ''code'' JNull] \<noteq> []
   \<and> list_all isProviderDefined
        [ProviderDefinedTool ''spark.search'' ''search'' JNull,
         ProviderDefinedTool ''spark.code'' ''code'' JNull]
   \<and> prepareTools
        \<lparr>mode_tools = Some [ProviderDefinedTool ''spark.search'' ''search'' JNull,
                            ProviderDefinedTool ''spark.code'' ''code'' JNull],
         mode_toolChoice = Some (ToolChoice ''search'')\<rparr> =
       \<lparr>tools = Some [],
        tool_choice = Some (ChoiceFunction ''search''),
        toolWarnings = [UnsupportedTool (ProviderDefinedTool ''spark.search'' ''search'' JNull),
                        UnsupportedTool (ProviderDefinedTool ''spark.code'' ''code'' JNull)]\<rparr>"
  using provider_defined_tools_dropped
          [of "[ProviderDefinedTool ''spark.search'' ''search'' JNull,
                ProviderDefinedTool ''spark.code'' ''code'' JNull]"
              "Some (ToolChoice ''search'')"]
  by simp

section \<open>The usage counters of the non-stream decoders\<close>

text \<open>
  C8. Each decoder returns a result whenever the response has a first choice, and each
  usage counter of that result is the not-a-number sentinel when the response has no
  usage object or the usage object lacks that counter, and is the reported number
  otherwise; so it is the sentinel exactly when the counter is missing, and never a zero
  standing for a missing one.
\<close>

theorem usage_counters_normalized:
  "(resp_choices body \<noteq> [] \<longrightarrow>
      (\<exists>res. chat_doGenerate generateId extractMetadata body = Inr res
         \<and> promptTokens (result_usage res) =
             (case Option.bind (resp_usage body) prompt_tokens of
                None \<Rightarrow> NaN | Some n \<Rightarrow> Num n)
         \<and> completionTokens (result_usage res) =
             (case Option.bind (resp_usage body) completion_tokens of
                None \<Rightarrow> NaN | Some n \<Rightarrow> Num n)
         \<and> (promptTokens (result_usage res) = NaN)
             = (Option.bind (resp_usage body) prompt_tokens = None)
         \<and> (completionTokens (result_usage res) = NaN)
             = (Option.bind (resp_usage body) completion_tokens = None)))
   \<and> (cr_choices cbody \<noteq> [] \<longrightarrow>
      (\<exists>cres. completion_doGenerate cbody = Inr cres
         \<and> promptTokens (result_usage cres) =
             (case map_option cu_prompt_tokens (cr_usage cbody) of
                None \<Rightarrow> NaN | Some n \<Rightarrow> Num n)
         \<and> completionTokens (result_usage cres) =
             (case map_option cu_completion_tokens (cr_usage cbody) of
                None \<Rightarrow> NaN | Some n \<Rightarrow> Num n)
         \<and> (promptTokens (result_usage cres) = NaN) = (cr_usage cbody = None)
         \<and> (completionTokens (result_usage cres) = NaN) = (cr_usage cbody = None)))"
proof (intro conjI impI)
  assume "resp_choices body \<noteq> []"
  then obtain choice others where "resp_choices body = choice # others"
    by (cases "resp_choices body") auto
  then show "\<exists>res. chat_doGenerate generateId extractMetadata body = Inr res
         \<and> promptTokens (result_usage res) =
             (case Option.bind (resp_usage body) prompt_tokens of
                None \<Rightarrow> NaN | Some n \<Rightarrow> Num n)
         \<and> completionTokens (result_usage res) =
             (case Option.bind (resp_usage body) completion_tokens of
                None \<Rightarrow> NaN | Some n \<Rightarrow> Num n)
         \<and> (promptTokens (result_usage res) = NaN)
             = (Option.bind (resp_usage body) prompt_tokens = None)
         \<and> (completionTokens (result_usage res) = NaN)
             = (Option.bind (resp_usage body) completion_tokens = None)"
    by (auto simp: chat_doGenerate_def split: option.splits)
next
  assume "cr_choices cbody \<noteq> []"
  then obtain choice others where "cr_choices cbody = choice # others"
    by (cases "cr_choices cbody") auto
  then show "\<exists>cres. completion_doGenerate cbody = Inr cres
         \<and> promptTokens (result_usage cres) =
             (case map_option cu_prompt_tokens (cr_usage cbody) of
                None \<Rightarrow> NaN | Some n \<Rightarrow> Num n)
         \<and> completionTokens (result_usage cres) =
             (case map_option cu_completion_tokens (cr_usage cbody) of
                None \<Rightarrow> NaN | Some n \<Rightarrow> Num n)
         \<and> (promptTokens (result_usage cres) = NaN) = (cr_usage cbody = None)
         \<and> (completionTokens (result_usage cres) = NaN) = (cr_usage cbody = None)"
    by (auto simp: completion_doGenerate_def split: option.splits)
qed

theorem usage_counters_normalized_witness:
  "resp_choices sampleChatResponse \<noteq> []
   \<and> (\<exists>res. chat_doGenerate (\<lambda>n. ''generated'') None sampleChatResponse = Inr res
         \<and> promptTokens (result_usage res) = Num 3
         \<and> completionTokens (result_usage res) = NaN)
   \<and> cr_choices sampleCompletionResponse \<noteq> []
   \<and> (\<exists>cres. completion_doGenerate sampleCompletionResponse = Inr cres
         \<and> promptTokens (result_usage cres) = NaN
         \<and> completionTokens (result_usage cres) = NaN)
   \<and> cr_choices sampleCompletionResponseWithUsage \<noteq> []
   \<and> (\<exists>cres. completion_doGenerate sampleCompletionResponseWithUsage = Inr cres
         \<and> promptTokens (result_usage cres) = Num 5
         \<and> completionTokens (result_usage cres) = Num 0)"
  using usage_counters_normalized
          [of sampleChatResponse "\<lambda>n. ''generated''" None sampleCompletionResponse]
        usage_counters_normalized
          [of sampleChatResponse "\<lambda>n. ''generated''" None sampleCompletionResponseWithUsage]
  by (auto simp: sampleChatResponse_def sampleCompletionResponse_def
        sampleCompletionResponseWithUsage_def)

section \<open>Simulated streaming\<close>

text \<open>
  C7. With simulated streaming, \<open>doStream\<close> makes the one \<open>doGenerate\<close> call, and
  when that returns a result the parts it enqueues are, in this order: the response
  metadata of the result, text deltas, one tool-call part per tool call of the result,
  and the finish part carrying the result's finish reason, usage and provider metadata.
  The concatenation of the text-delta fragments is the result's text (the empty text
  when the result has none).
\<close>

theorem simulated_stream_order:
  assumes "chat_doGenerate generateId extractMetadata body = Inr res"
  shows "\<exists>deltas.
           doStream_simulated generateId extractMetadata body =
             Inr ([ResponseMetadata (result_response res)]
                  @ map TextDelta deltas
                  @ map ToolCallPart (case result_toolCalls res of None \<Rightarrow> [] | Some calls \<Rightarrow> calls)
                  @ [Finish (result_finishReason res) (result_usage res)
                            (result_providerMetadata res)])
           \<and> concat deltas = (case result_text res of None \<Rightarrow> [] | Some t \<Rightarrow> t)"
proof (cases "result_text res")
  case None
  with assms show ?thesis
    by (intro exI [of _ "[]"])
       (simp add: doStream_simulated_def simulatedStream_def split: option.split)
next
  case (Some t)
  show ?thesis
  proof (cases "t = []")
    case True
    with Some assms show ?thesis
      by (intro exI [of _ "[]"])
         (simp add: doStream_simulated_def simulatedStream_def split: option.split)
  next
    case False
    with Some assms show ?thesis
      by (intro exI [of _ "[t]"])
         (simp add: doStream_simulated_def simulatedStream_def split: option.split)
  qed
qed

theorem simulated_stream_order_witness:
  "\<exists>res deltas.
     chat_doGenerate (\<lambda>n. ''generated'') None sampleChatResponse = Inr res
   \<and> doStream_simulated (\<lambda>n. ''generated'') None sampleChatResponse =
       Inr ([ResponseMetadata \<lparr>meta_id = Some ''r1'', modelId = Some ''lite'',
                               timestamp = Some 1700000000000\<rparr>]
            @ map TextDelta deltas
            @ [ToolCallPart (FunctionToolCall ''generated'' ''lookup'' ''{}'')]
            @ [Finish ToolCalls \<lparr>promptTokens = Num 3, completionTokens = NaN\<rparr> None])
   \<and> concat deltas = ''Hello''
   \<and> result_text res = Some ''Hello''"
proof -
  obtain res where res: "chat_doGenerate (\<lambda>n. ''generated'') None sampleChatResponse = Inr res"
    by (simp add: chat_doGenerate_def sampleChatResponse_def)
  from simulated_stream_order [OF res] obtain deltas where
    "doStream_simulated (\<lambda>n. ''generated'') None sampleChatResponse =
       Inr ([ResponseMetadata (result_response res)]
            @ map TextDelta deltas
            @ map ToolCallPart (case result_toolCalls res of None \<Rightarrow> [] | Some calls \<Rightarrow> calls)
            @ [Finish (result_finishReason res) (result_usage res)
                      (result_providerMetadata res)])"
    and "concat deltas = (case result_text res of None \<Rightarrow> [] | Some t \<Rightarrow> t)"
    by blast
  with res show ?thesis
    by (intro exI [of _ res] exI [of _ deltas])
       (auto simp: chat_doGenerate_def sampleChatResponse_def getResponseMetadata_def
                   mapSparkFinishReason_def)
qed

section \<open>Tool-call deltas without a function name\<close>

text \<open>
  C9. In any state of the stream (so also after earlier chunks established a tool call
  and its name), a validated chunk whose first choice carries a tool-call delta with no
  function name makes the transform throw an InvalidResponseDataError. No error part is
  enqueued for it, and the tool-call table and the finish reason stay as they were.
\<close>

theorem missing_name_throws:
  assumes "chunk_choices c = choice # others"
      and "choice_delta choice = Some d"
      and "delta_tool_calls d = Some tc"
      and "fn_name (dtc_function tc) = None"
  shows "\<exists>st' msg.
           transform isParsableJson generateId st (Success (ChunkValue c))
             = (st', Some (InvalidResponseDataError msg))
           \<and> filter isErrorPart (enqueued st') = filter isErrorPart (enqueued st)
           \<and> toolCalls st' = toolCalls st
           \<and> finishReason st' = finishReason st"
  using assms
  by (auto simp: transform_def processChunk_def processToolCalls_def enqueue_def Let_def
           split: option.splits)

theorem missing_name_throws_witness:
  "\<exists>st1 st2 msg.
     transform (\<lambda>s. False) (\<lambda>n. ''generated'') initialState
       (Success (ChunkValue (toolCallChunk (Some ''call1'') (Some ''lookup'') (Some ''{''))))
       = (st1, None)
   \<and> map acc_name (toolCalls st1) = [''lookup'']
   \<and> chunk_choices (toolCallChunk (Some ''call1'') None (Some ''}'')) \<noteq> []
   \<and> transform (\<lambda>s. False) (\<lambda>n. ''generated'') st1
       (Success (ChunkValue (toolCallChunk (Some ''call1'') None (Some ''}''))))
       = (st2, Some (InvalidResponseDataError msg))
   \<and> filter isErrorPart (enqueued st2) = []
   \<and> map acc_name (toolCalls st2) = [''lookup'']"
proof -
  obtain st1 where st1:
    "transform (\<lambda>s. False) (\<lambda>n. ''generated'') initialState
       (Success (ChunkValue (toolCallChunk (Some ''call1'') (Some ''lookup'') (Some ''{''))))
     = (st1, None)"
    and name: "map acc_name (toolCalls st1) = [''lookup'']"
    and noerr: "filter isErrorPart (enqueued st1) = []"
    by (simp add: transform_def processChunk_def processToolCalls_def enqueue_def Let_def
          toolCallChunk_def initialState_def getResponseMetadata_def)
  have "\<exists>st' msg.
          transform (\<lambda>s. False) (\<lambda>n. ''generated'') st1
            (Success (ChunkValue (toolCallChunk (Some ''call1'') None (Some ''}''))))
            = (st', Some (InvalidResponseDataError msg))
          \<and> filter isErrorPart (enqueued st') = filter isErrorPart (enqueued st1)
          \<and> toolCalls st' = toolCalls st1
          \<and> finishReason st' = finishReason st1"
    by (rule missing_name_throws
          [where choice = "\<lparr>choice_delta =
                   Some \<lparr>delta_content = None, delta_reasoning_content = None,
                         delta_tool_calls =
                           Some \<lparr>dtc_id = Some ''call1'', dtc_type = Some Function,
                                 dtc_function = \<lparr>fn_name = None, fn_arguments = Some ''}''\<rparr>\<rparr>\<rparr>,
                 chunk_finish_reason = None\<rparr>"
             and others = "[]"
             and d = "\<lparr>delta_content = None, delta_reasoning_content = None,
                      delta_tool_calls =
                        Some \<lparr>dtc_id = Some ''call1'', dtc_type = Some Function,
                              dtc_function = \<lparr>fn_name = None, fn_arguments = Some ''}''\<rparr>\<rparr>\<rparr>"
             and tc = "\<lparr>dtc_id = Some ''call1'', dtc_type = Some Function,
                       dtc_function = \<lparr>fn_name = None, fn_arguments = Some ''}''\<rparr>\<rparr>"])
       (simp_all add: toolCallChunk_def)
  with st1 name noerr show ?thesis
    by (auto simp: toolCallChunk_def)
qed

section \<open>Where a system message may stand\<close>

subsection \<open>The chat converter raises one error only\<close>

lemma array_map_user_error:
  "array_map (convertUserPart toBase64) content = Inl e \<Longrightarrow>
     e = UnsupportedFunctionalityError ''File content parts in user messages''"
proof (induction content)
  case Nil
  then show ?case by simp
next
  case (Cons p ps)
  then show ?case by (cases p) (auto split: sum.splits)
qed

lemma convertMessage_User:
  "(\<exists>out. convertMessage stringify toBase64 (User content pm) = Inr out)
   \<or> convertMessage stringify toBase64 (User content pm) =
        (case array_map (convertUserPart toBase64) content of
           Inl e \<Rightarrow> Inl e
         | Inr parts \<Rightarrow>
             Inr [spread [(''role'', JString ''user''), (''content'', JArray parts)]
                         (getSparkMetadata pm)])"
  by (simp split: list.split user_part.split)

lemma convertMessage_error:
  "convertMessage stringify toBase64 m = Inl e \<Longrightarrow>
     e = UnsupportedFunctionalityError ''File content parts in user messages''"
proof (cases m)
  case (User content pm)
  assume err: "convertMessage stringify toBase64 m = Inl e"
  with User convertMessage_User [of stringify toBase64 content pm]
  have "(case array_map (convertUserPart toBase64) content of
           Inl e \<Rightarrow> Inl e
         | Inr parts \<Rightarrow>
             Inr [spread [(''role'', JString ''user''), (''content'', JArray parts)]
                         (getSparkMetadata pm)]) = Inl e"
    by auto
  then have "array_map (convertUserPart toBase64) content = Inl e"
    by (simp split: sum.splits)
  then show ?thesis by (rule array_map_user_error)
qed (auto split: prod.splits)

lemma convertLoop_error:
  "convertLoop stringify toBase64 messages ms = Inl e \<Longrightarrow>
     e = UnsupportedFunctionalityError ''File content parts in user messages''"
proof (induction ms arbitrary: messages)
  case Nil
  then show ?case by simp
next
  case (Cons m ms)
  then show ?case
    by (auto split: sum.splits dest: convertMessage_error)
qed

subsection \<open>The chat converter converts message by message\<close>

lemma convertLoop_accumulates:
  "convertLoop stringify toBase64 messages ms =
     (case convertLoop stringify toBase64 [] ms of
        Inl e \<Rightarrow> Inl e
      | Inr out \<Rightarrow> Inr (messages @ out))"
proof (induction ms arbitrary: messages)
  case Nil
  then show ?case by simp
next
  case (Cons m ms)
  show ?case
  proof (cases "convertMessage stringify toBase64 m")
    case (Inl e)
    then show ?thesis by simp
  next
    case (Inr pushed)
    with Cons.IH [of "messages @ pushed"] Cons.IH [of pushed] show ?thesis
      by (simp split: sum.splits)
  qed
qed

lemma convertToSparkChatMessages_Cons:
  "convertToSparkChatMessages stringify toBase64 (m # ms) =
     (case convertMessage stringify toBase64 m of
        Inl e \<Rightarrow> Inl e
      | Inr pushed \<Rightarrow>
          (case convertToSparkChatMessages stringify toBase64 ms of
             Inl e \<Rightarrow> Inl e
           | Inr out \<Rightarrow> Inr (pushed @ out)))"
proof (cases "convertMessage stringify toBase64 m")
  case (Inl e)
  then show ?thesis by (simp add: convertToSparkChatMessages_def)
next
  case (Inr pushed)
  with convertLoop_accumulates [of stringify toBase64 pushed ms] show ?thesis
    by (simp add: convertToSparkChatMessages_def)
qed

lemma convertToSparkChatMessages_append:
  "convertToSparkChatMessages stringify toBase64 (xs @ ys) =
     (case convertToSparkChatMessages stringify toBase64 xs of
        Inl e \<Rightarrow> Inl e
      | Inr before \<Rightarrow>
          (case convertToSparkChatMessages stringify toBase64 ys of
             Inl e \<Rightarrow> Inl e
           | Inr after \<Rightarrow> Inr (before @ after)))"
proof (induction xs)
  case Nil
  then show ?case by (simp add: convertToSparkChatMessages_def split: sum.splits)
next
  case (Cons x xs)
  then show ?case
    by (simp add: convertToSparkChatMessages_Cons split: sum.splits)
qed

text \<open>
  A system message at any place of the prompt becomes one system message at that place
  of the output.
\<close>

lemma system_message_passes_through:
  "convertToSparkChatMessages stringify toBase64 (pre @ System content pm # post) =
     (case convertToSparkChatMessages stringify toBase64 pre of
        Inl e \<Rightarrow> Inl e
      | Inr before \<Rightarrow>
          (case convertToSparkChatMessages stringify toBase64 post of
             Inl e \<Rightarrow> Inl e
           | Inr after \<Rightarrow>
               Inr (before
                    @ [spread [(''role'', JString ''system''), (''content'', JString content)]
                              (getSparkMetadata pm)]
                    @ after)))"
  by (simp add: convertToSparkChatMessages_append convertToSparkChatMessages_Cons
           split: sum.splits)

subsection \<open>The completion converter's loop\<close>

lemma user_text_parts_render:
  "list_all isTextPart content \<Longrightarrow> \<exists>parts. array_map userPartText content = Inr parts"
proof (induction content)
  case Nil
  then show ?case by simp
next
  case (Cons p ps)
  then show ?case by (cases p) auto
qed

lemma assistant_text_parts_render:
  "list_all isAssistantText content \<Longrightarrow>
     \<exists>parts. array_map assistantPartText content = Inr parts"
proof (induction content)
  case Nil
  then show ?case by simp
next
  case (Cons p ps)
  then show ?case by (cases p) auto
qed

lemma user_parts_error:
  "array_map userPartText content = Inl e \<Longrightarrow> e \<noteq> InvalidPromptError msg"
proof (induction content)
  case Nil
  then show ?case by simp
next
  case (Cons p ps)
  then show ?case by (cases p) (auto split: sum.splits)
qed

lemma assistant_parts_error:
  "array_map assistantPartText content = Inl e \<Longrightarrow> e \<noteq> InvalidPromptError msg"
proof (induction content)
  case Nil
  then show ?case by simp
next
  case (Cons p ps)
  then show ?case by (cases p) (auto split: sum.splits)
qed

text \<open>
  The loop reaches the first system message when everything before it renders, and
  raises there.
\<close>

lemma renderLoop_reaches_system:
  "k < length ms \<Longrightarrow> isSystem (ms ! k) \<Longrightarrow> (\<forall>j<k. textOnly (ms ! j)) \<Longrightarrow>
     \<exists>c. renderLoop user assistant t0 ms =
           Inl (InvalidPromptError (''Unexpected system message in prompt: '' @ c))"
proof (induction ms arbitrary: k t0)
  case Nil
  then show ?case by simp
next
  case (Cons m ms)
  show ?case
  proof (cases m)
    case (System content pm)
    then show ?thesis by simp
  next
    case (User content pm)
    with Cons.prems obtain k' where k: "k = Suc k'" by (cases k) auto
    from Cons.prems k have "textOnly m" by auto
    with User obtain parts where parts: "array_map userPartText content = Inr parts"
      using user_text_parts_render by auto
    have "\<exists>c. renderLoop user assistant
                 (t0 @ user @ '':'' @ [nl] @ concat parts @ [nl, nl]) ms =
               Inl (InvalidPromptError (''Unexpected system message in prompt: '' @ c))"
      using Cons.prems k by (intro Cons.IH [of "k'"]) auto
    with User parts show ?thesis by simp
  next
    case (Assistant content pm)
    with Cons.prems obtain k' where k: "k = Suc k'" by (cases k) auto
    from Cons.prems k have "textOnly m" by auto
    with Assistant obtain parts where parts: "array_map assistantPartText content = Inr parts"
      using assistant_text_parts_render by auto
    have "\<exists>c. renderLoop user assistant
                 (t0 @ assistant @ '':'' @ [nl] @ concat parts @ [nl, nl]) ms =
               Inl (InvalidPromptError (''Unexpected system message in prompt: '' @ c))"
      using Cons.prems k by (intro Cons.IH [of "k'"]) auto
    with Assistant parts show ?thesis by simp
  next
    case (Tool content pm)
    with Cons.prems obtain k' where k: "k = Suc k'" by (cases k) auto
    from Cons.prems k have "textOnly m" by auto
    with Tool show ?thesis by simp
  qed
qed

text \<open>The loop raises the prompt-shape error only at a system message.\<close>

lemma renderLoop_prompt_error:
  "renderLoop user assistant t0 ms = Inl (InvalidPromptError msg) \<Longrightarrow>
     \<exists>k<length ms. isSystem (ms ! k)"
proof (induction ms arbitrary: t0)
  case Nil
  then show ?case by simp
next
  case (Cons m ms)
  show ?case
  proof (cases m)
    case (System content pm)
    then show ?thesis by auto
  next
    case (User content pm)
    with Cons.prems obtain parts where
      "renderLoop user assistant (t0 @ user @ '':'' @ [nl] @ concat parts @ [nl, nl]) ms
         = Inl (InvalidPromptError msg)"
      by (auto split: sum.splits dest: user_parts_error)
    from Cons.IH [OF this] show ?thesis by auto
  next
    case (Assistant content pm)
    with Cons.prems obtain parts where
      "renderLoop user assistant (t0 @ assistant @ '':'' @ [nl] @ concat parts @ [nl, nl]) ms
         = Inl (InvalidPromptError msg)"
      by (auto split: sum.splits dest: assistant_parts_error)
    from Cons.IH [OF this] show ?thesis by auto
  next
    case (Tool content pm)
    with Cons.prems show ?thesis by simp
  qed
qed

subsection \<open>The completion converter\<close>

lemma completion_misplaced_system:
  assumes "1 \<le> i" and "i < length p" and "isSystem (p ! i)" and "\<forall>j<i. textOnly (p ! j)"
  shows "\<exists>c. convertToSparkCompletionPrompt p inputFormat userArg assistantArg =
               Inl (InvalidPromptError (''Unexpected system message in prompt: '' @ c))"
proof -
  from assms obtain m rest where p: "p = m # rest" by (cases p) auto
  from assms p obtain i' where i: "i = Suc i'" by (cases i) auto
  from assms p i have len: "length p \<noteq> 1" by auto
  let ?user = "case userArg of None \<Rightarrow> ''user'' | Some u \<Rightarrow> u"
  let ?assistant = "case assistantArg of None \<Rightarrow> ''assistant'' | Some a \<Rightarrow> a"
  show ?thesis
  proof (cases m)
    case (System content pm)
    have "\<exists>c. renderLoop ?user ?assistant (content @ [nl, nl]) rest =
               Inl (InvalidPromptError (''Unexpected system message in prompt: '' @ c))"
      using assms p i by (intro renderLoop_reaches_system [of "i'"]) auto
    with System p len show ?thesis
      by (auto simp: convertToSparkCompletionPrompt_def)
  next
    case (User content pm)
    have "\<exists>c. renderLoop ?user ?assistant [] p =
               Inl (InvalidPromptError (''Unexpected system message in prompt: '' @ c))"
      using assms by (intro renderLoop_reaches_system [of i]) auto
    with User p len show ?thesis
      by (auto simp: convertToSparkCompletionPrompt_def)
  next
    case (Assistant content pm)
    have "\<exists>c. renderLoop ?user ?assistant [] p =
               Inl (InvalidPromptError (''Unexpected system message in prompt: '' @ c))"
      using assms by (intro renderLoop_reaches_system [of i]) auto
    with Assistant p len show ?thesis
      by (auto simp: convertToSparkCompletionPrompt_def)
  next
    case (Tool content pm)
    from assms p i have "textOnly (p ! 0)" by auto
    with Tool p show ?thesis by simp
  qed
qed

lemma completion_no_misplaced_system:
  assumes "\<forall>i. 1 \<le> i \<and> i < length p \<longrightarrow> \<not> isSystem (p ! i)"
  shows "convertToSparkCompletionPrompt p inputFormat userArg assistantArg
           \<noteq> Inl (InvalidPromptError msg)"
proof
  assume err: "convertToSparkCompletionPrompt p inputFormat userArg assistantArg
                 = Inl (InvalidPromptError msg)"
  let ?user = "case userArg of None \<Rightarrow> ''user'' | Some u \<Rightarrow> u"
  let ?assistant = "case assistantArg of None \<Rightarrow> ''assistant'' | Some a \<Rightarrow> a"
  from err obtain m rest where p: "p = m # rest"
    by (cases p) (auto simp: convertToSparkCompletionPrompt_def split: if_splits)
  show False
  proof (cases "isSystem m")
    case True
    then obtain content pm where m: "m = System content pm" by (cases m) auto
    with err p have "renderLoop ?user ?assistant (content @ [nl, nl]) rest
                       = Inl (InvalidPromptError msg)"
      by (auto simp: convertToSparkCompletionPrompt_def Let_def split: if_splits sum.splits)
    then obtain k where "k < length rest" "isSystem (rest ! k)"
      using renderLoop_prompt_error by blast
    with assms p show False by (auto dest: spec [of _ "Suc k"])
  next
    case False
    with err p have "renderLoop ?user ?assistant [] p = Inl (InvalidPromptError msg)"
      by (cases m)
         (auto simp: convertToSparkCompletionPrompt_def Let_def split: if_splits sum.splits)
    then obtain k where k: "k < length p" "isSystem (p ! k)"
      using renderLoop_prompt_error by blast
    with False p have "1 \<le> k" by (cases k) auto
    with assms k show False by auto
  qed
qed

text \<open>
  C4, as the code has it. The chat converter never raises the prompt-shape error: a
  system message at any index of the prompt is converted to one system message with its
  content and metadata, standing in the output between what the messages before it and
  the messages after it convert to (and the conversion fails only where converting those
  fails). The completion converter raises the prompt-shape error for a system message
  at an index \<open>i\<close> other than 0 whenever every message before index \<open>i\<close> is a system
  message or a user or assistant message of text parts only (any other earlier message
  raises its own error first), and never raises it when no message at an index other
  than 0 is a system message.
\<close>

theorem system_message_placement:
  "convertToSparkChatMessages stringify toBase64 p \<noteq> Inl (InvalidPromptError msg)
   \<and> convertToSparkChatMessages stringify toBase64 (pre @ System content pm # post) =
       (case convertToSparkChatMessages stringify toBase64 pre of
          Inl e \<Rightarrow> Inl e
        | Inr before \<Rightarrow>
            (case convertToSparkChatMessages stringify toBase64 post of
               Inl e \<Rightarrow> Inl e
             | Inr after \<Rightarrow>
                 Inr (before
                      @ [spread [(''role'', JString ''system''), (''content'', JString content)]
                                (getSparkMetadata pm)]
                      @ after)))
   \<and> (1 \<le> i \<and> i < length p \<and> isSystem (p ! i) \<and> list_all textOnly (take i p) \<longrightarrow>
        (\<exists>c. convertToSparkCompletionPrompt p inputFormat userArg assistantArg =
               Inl (InvalidPromptError (''Unexpected system message in prompt: '' @ c))))
   \<and> (list_all (\<lambda>m. \<not> isSystem m) (drop 1 p) \<longrightarrow>
        convertToSparkCompletionPrompt p inputFormat userArg assistantArg
          \<noteq> Inl (InvalidPromptError msg))"
proof (intro conjI impI)
  show "convertToSparkChatMessages stringify toBase64 p \<noteq> Inl (InvalidPromptError msg)"
    by (auto simp: convertToSparkChatMessages_def dest: convertLoop_error)
next
  show "convertToSparkChatMessages stringify toBase64 (pre @ System content pm # post) =
       (case convertToSparkChatMessages stringify toBase64 pre of
          Inl e \<Rightarrow> Inl e
        | Inr before \<Rightarrow>
            (case convertToSparkChatMessages stringify toBase64 post of
               Inl e \<Rightarrow> Inl e
             | Inr after \<Rightarrow>
                 Inr (before
                      @ [spread [(''role'', JString ''system''), (''content'', JString content)]
                                (getSparkMetadata pm)]
                      @ after)))"
    by (rule system_message_passes_through)
next
  assume h: "1 \<le> i \<and> i < length p \<and> isSystem (p ! i) \<and> list_all textOnly (take i p)"
  then have "\<forall>j<i. textOnly (p ! j)"
    by (auto simp: list_all_length)
  with h show "\<exists>c. convertToSparkCompletionPrompt p inputFormat userArg assistantArg =
                 Inl (InvalidPromptError (''Unexpected system message in prompt: '' @ c))"
    by (intro completion_misplaced_system) auto
next
  assume h: "list_all (\<lambda>m. \<not> isSystem m) (drop 1 p)"
  have "\<forall>i. 1 \<le> i \<and> i < length p \<longrightarrow> \<not> isSystem (p ! i)"
  proof (intro allI impI)
    fix i assume i: "1 \<le> i \<and> i < length p"
    then have "i - 1 < length (drop 1 p)" and "drop 1 p ! (i - 1) = p ! i" by auto
    with h show "\<not> isSystem (p ! i)" by (auto simp: list_all_length)
  qed
  then show "convertToSparkCompletionPrompt p inputFormat userArg assistantArg
               \<noteq> Inl (InvalidPromptError msg)"
    by (rule completion_no_misplaced_system)
qed

theorem system_message_placement_witness:
  "convertToSparkChatMessages (\<lambda>v. Some ''{}'') (\<lambda>b. [])
       [User [UText ''hi'' None] None, System ''be brief'' None]
     \<noteq> Inl (InvalidPromptError ''Unexpected system message in prompt: be brief'')
   \<and> convertToSparkChatMessages (\<lambda>v. Some ''{}'') (\<lambda>b. [])
       ([User [UText ''hi'' None] None] @ System ''be brief'' None # [Assistant [AText ''ok'' None] None])
     = Inr [[(''role'', JString ''user''), (''content'', JString ''hi'')],
            [(''role'', JString ''system''), (''content'', JString ''be brief'')],
            [(''role'', JString ''assistant''), (''content'', JString ''ok''),
             (''tool_calls'', initialToolCalls)]]
   \<and> (1::nat) \<le> 1
   \<and> 1 < length [User [UText ''hi'' None] None, System ''be brief'' None]
   \<and> isSystem ([User [UText ''hi'' None] None, System ''be brief'' None] ! 1)
   \<and> list_all textOnly (take 1 [User [UText ''hi'' None] None, System ''be brief'' None])
   \<and> (\<exists>c. convertToSparkCompletionPrompt
              [User [UText ''hi'' None] None, System ''be brief'' None] MessagesFormat None None
            = Inl (InvalidPromptError (''Unexpected system message in prompt: '' @ c)))
   \<and> list_all (\<lambda>m. \<not> isSystem m) (drop 1 [System ''be brief'' None, User [UText ''hi'' None] None])
   \<and> convertToSparkCompletionPrompt
        [System ''be brief'' None, User [UText ''hi'' None] None] MessagesFormat None None
      \<noteq> Inl (InvalidPromptError ''Unexpected system message in prompt: be brief'')"
  using system_message_placement
          [of "\<lambda>v. Some ''{}''" "\<lambda>b. []"
              "[User [UText ''hi'' None] None, System ''be brief'' None]"
              "''Unexpected system message in prompt: be brief''"
              "[User [UText ''hi'' None] None]" "''be brief''" None
              "[Assistant [AText ''ok'' None] None]"
              1 MessagesFormat None None]
        system_message_placement
          [of "\<lambda>v. Some ''{}''" "\<lambda>b. []"
              "[System ''be brief'' None, User [UText ''hi'' None] None]"
              "''Unexpected system message in prompt: be brief''"
              "[]" "''be brief''" None "[]"
              1 MessagesFormat None None]
  by (simp add: convertToSparkChatMessages_def spread_def ownProperties_def
        getSparkMetadata_def initialToolCalls_def)

text \<open>
  The claim as stated fails twice. The chat converter converts a system message at
  index 1 like any other; and in the completion converter a tool message before the
  system message raises the unsupported-functionality error first.
\<close>

theorem late_system_message_without_prompt_error:
  "convertToSparkChatMessages (\<lambda>v. Some ''{}'') (\<lambda>b. [])
     [User [UText ''hi'' None] None, System ''be brief'' None]
   = Inr [[(''role'', JString ''user''), (''content'', JString ''hi'')],
          [(''role'', JString ''system''), (''content'', JString ''be brief'')]]
   \<and> convertToSparkCompletionPrompt
       [Tool [] None, System ''be brief'' None] MessagesFormat None None
     = Inl (UnsupportedFunctionalityError ''tool messages'')"
  by (simp add: convertToSparkChatMessages_def spread_def ownProperties_def
        getSparkMetadata_def convertToSparkCompletionPrompt_def)

section \<open>What the chat stream does with tool-call deltas\<close>

text \<open>
  Every tool-call delta stores a fresh object in slot 0, built from that delta alone,
  and then appends the delta's arguments to it once more.
\<close>

lemma processToolCalls_slot:
  "dtc_type tc = Some Function \<Longrightarrow> fn_name (dtc_function tc) = Some name \<Longrightarrow>
     fn_arguments (dtc_function tc) = Some a \<Longrightarrow>
     map acc_arguments (toolCalls (fst (processToolCalls isParsableJson generateId tc st)))
       = (a @ a) # map acc_arguments (tl (toolCalls st))"
  by (cases "toolCalls st")
     (auto simp: processToolCalls_def enqueue_def Let_def split: option.splits)

text \<open>
  C1, at the stream of two deltas with the argument fragments \<open>{\<close> and \<open>}\<close> for the
  call \<open>call1\<close> of \<open>lookup\<close>. Whatever \<open>isParsableJson\<close> answers, slot 0 ends with
  the buffer \<open>}}\<close>, not with the concatenation \<open>{}\<close> of the fragments, and each
  delta has put two tool-call-delta parts on the stream, not one.
\<close>

theorem tool_call_buffer_holds_last_fragment_twice:
  "map acc_arguments (toolCalls (fst (doStream isParsableJson generateId buildMetadata
      [Success (ChunkValue (toolCallChunk (Some ''call1'') (Some ''lookup'') (Some ''{''))),
       Success (ChunkValue (toolCallChunk (Some ''call1'') (Some ''lookup'') (Some ''}'')))])))
     = [''}}'']
   \<and> argsTextDeltas (enqueued (fst (doStream isParsableJson generateId buildMetadata
      [Success (ChunkValue (toolCallChunk (Some ''call1'') (Some ''lookup'') (Some ''{''))),
       Success (ChunkValue (toolCallChunk (Some ''call1'') (Some ''lookup'') (Some ''}'')))])))
     = [''{'', ''{'', ''}'', ''}'']"
  by (simp add: doStream_def transform_def processChunk_def processToolCalls_def enqueue_def
        flush_def Let_def toolCallChunk_def initialState_def getResponseMetadata_def)

text \<open>
  C3, at the stream of a delta with the complete arguments \<open>{}\<close> followed by a delta
  with the fragment \<open>{\<close>, for a JSON test that accepts \<open>{}\<close> and rejects \<open>{\<close> and
  \<open>{{\<close>. After the first delta slot 0 is marked finished; the second delta leaves it
  marked not finished.
\<close>

theorem finished_mark_reset_by_next_delta:
  assumes "isParsableJson ''{}''"
      and "\<not> isParsableJson ''{''"
      and "\<not> isParsableJson ''{{''"
  shows "map hasFinished (toolCalls (fst (transformAll isParsableJson generateId initialState
           [Success (ChunkValue (toolCallChunk (Some ''call1'') (Some ''lookup'') (Some ''{}'')))])))
         = [True]
       \<and> map hasFinished (toolCalls (fst (transformAll isParsableJson generateId initialState
           [Success (ChunkValue (toolCallChunk (Some ''call1'') (Some ''lookup'') (Some ''{}''))),
            Success (ChunkValue (toolCallChunk (Some ''call1'') (Some ''lookup'') (Some ''{'')))])))
         = [False]"
  using assms
  by (simp add: transform_def processChunk_def processToolCalls_def enqueue_def
        Let_def toolCallChunk_def initialState_def getResponseMetadata_def)

theorem finished_mark_reset_by_next_delta_witness:
  "(\<lambda>s. s = ''{}'') ''{}''
   \<and> \<not> (\<lambda>s. s = ''{}'') ''{''
   \<and> \<not> (\<lambda>s. s = ''{}'') ''{{''
   \<and> map hasFinished (toolCalls (fst (transformAll (\<lambda>s. s = ''{}'') (\<lambda>n. ''generated'')
         initialState
         [Success (ChunkValue (toolCallChunk (Some ''call1'') (Some ''lookup'') (Some ''{}'')))])))
       = [True]
   \<and> map hasFinished (toolCalls (fst (transformAll (\<lambda>s. s = ''{}'') (\<lambda>n. ''generated'')
         initialState
         [Success (ChunkValue (toolCallChunk (Some ''call1'') (Some ''lookup'') (Some ''{}''))),
          Success (ChunkValue (toolCallChunk (Some ''call1'') (Some ''lookup'') (Some ''{'')))])))
       = [False]"
  using finished_mark_reset_by_next_delta [of "\<lambda>s. s = ''{}''" "\<lambda>n. ''generated''"]
  by simp

section \<open>What the chat stream does with the finish reason\<close>

lemma processToolCalls_finish:
  "filter isFinish (enqueued (fst (processToolCalls isParsableJson generateId tc st)))
     = filter isFinish (enqueued st)
   \<and> finishReason (fst (processToolCalls isParsableJson generateId tc st)) = finishReason st
   \<and> usage (fst (processToolCalls isParsableJson generateId tc st)) = usage st"
  by (auto simp: processToolCalls_def enqueue_def Let_def split: option.splits)

lemma processChunk_finish:
  "filter isFinish (enqueued (fst (processChunk isParsableJson generateId c st)))
     = filter isFinish (enqueued st)
   \<and> finishReason (fst (processChunk isParsableJson generateId c st)) = finishReason st"
  by (auto simp: processChunk_def processToolCalls_finish enqueue_def Let_def
           split: option.splits list.splits)

lemma transform_finish:
  "filter isFinish (enqueued (fst (transform isParsableJson generateId st parsed)))
     = filter isFinish (enqueued st)
   \<and> (finishReason (fst (transform isParsableJson generateId st parsed)) = finishReason st
      \<or> finishReason (fst (transform isParsableJson generateId st parsed)) = ErrorReason)"
  by (auto simp: transform_def processChunk_finish enqueue_def Let_def
           split: parse_result.splits chunk_value.splits option.splits)

lemma transformAll_finish:
  "filter isFinish (enqueued (fst (transformAll isParsableJson generateId st chunks)))
     = filter isFinish (enqueued st)
   \<and> (finishReason (fst (transformAll isParsableJson generateId st chunks)) = finishReason st
      \<or> finishReason (fst (transformAll isParsableJson generateId st chunks)) = ErrorReason)"
proof (induction chunks arbitrary: st)
  case Nil
  then show ?case by simp
next
  case (Cons c chunks)
  obtain st' thrown where step: "transform isParsableJson generateId st c = (st', thrown)"
    by (cases "transform isParsableJson generateId st c")
  from transform_finish [of isParsableJson generateId st c] step
  have one: "filter isFinish (enqueued st') = filter isFinish (enqueued st)"
    and two: "finishReason st' = finishReason st \<or> finishReason st' = ErrorReason"
    by auto
  show ?case
  proof (cases thrown)
    case None
    with step Cons.IH [of st'] one two show ?thesis by auto
  next
    case (Some e)
    with step one two show ?thesis by auto
  qed
qed

text \<open>
  A chat stream that completes normally ends with its one finish part, and the finish
  reason of that part is never one mapped from a chunk: it is \<open>unknown\<close> or \<open>error\<close>.
\<close>

lemma chat_stream_finish:
  assumes "doStream isParsableJson generateId buildMetadata chunks = (st, None)"
  shows "\<exists>before reason tokens metadata.
           enqueued st = before @ [Finish reason tokens metadata]
           \<and> filter isFinish before = []
           \<and> (reason = Unknown \<or> reason = ErrorReason)"
proof -
  obtain st0 where run: "transformAll isParsableJson generateId initialState chunks = (st0, None)"
    and st: "st = flush buildMetadata st0"
    using assms by (auto simp: doStream_def split: prod.splits option.splits)
  from transformAll_finish [of isParsableJson generateId initialState chunks] run
  have "filter isFinish (enqueued st0) = []"
    and "finishReason st0 = Unknown \<or> finishReason st0 = ErrorReason"
    by (auto simp: initialState_def)
  with st show ?thesis
    by (auto simp: flush_def enqueue_def)
qed

text \<open>
  C5, at the stream of one chunk whose choice has no delta and the finish reason
  \<open>stop\<close>, with usage 3 and 2. The stream completes normally and its finish part is
  the last of two parts; it carries the usage, and the finish reason \<open>unknown\<close>, not
  \<open>stop\<close>: the transform never reads the chunk's finish reason.
\<close>

theorem finish_reason_of_chunk_not_read:
  "doStream isParsableJson generateId None
     [Success (ChunkValue
        \<lparr>chunk_id = Some ''r1'', chunk_created = None, chunk_model = Some ''lite'',
         chunk_choices = [\<lparr>choice_delta = None, chunk_finish_reason = Some ''stop''\<rparr>],
         chunk_usage = Some \<lparr>prompt_tokens = Some 3, completion_tokens = Some 2\<rparr>\<rparr>)]
   = (\<lparr>toolCalls = [],
       finishReason = Unknown,
       usage = \<lparr>snap_promptTokens = Some 3, snap_completionTokens = Some 2\<rparr>,
       isFirstChunk = False,
       enqueued =
         [ResponseMetadata \<lparr>meta_id = Some ''r1'', modelId = Some ''lite'', timestamp = None\<rparr>,
          Finish Unknown \<lparr>promptTokens = Num 3, completionTokens = Num 2\<rparr> None],
       generated = 0,
       processed =
         [ChunkValue
            \<lparr>chunk_id = Some ''r1'', chunk_created = None, chunk_model = Some ''lite'',
             chunk_choices = [\<lparr>choice_delta = None, chunk_finish_reason = Some ''stop''\<rparr>],
             chunk_usage = Some \<lparr>prompt_tokens = Some 3, completion_tokens = Some 2\<rparr>\<rparr>]\<rparr>,
      None)"
  by (simp add: doStream_def transform_def processChunk_def enqueue_def flush_def
        Let_def initialState_def getResponseMetadata_def)

section \<open>What the chat converter does with an assistant message without tool calls\<close>

text \<open>
  The assistant branch pushes one message: its content is the texts of the text parts
  put together in order; its \<open>tool_calls\<close> is the converted last tool-call part, or
  the placeholder the loop started from when there is none. The message's metadata is
  spread over it.
\<close>

lemma assistantParts_fold:
  "assistantParts stringify (t, tc) parts =
     (t @ concat (textsOf parts),
      (case lastToolCall stringify parts of None \<Rightarrow> tc | Some c \<Rightarrow> c))"
proof (induction parts arbitrary: t tc)
  case Nil
  then show ?case by simp
next
  case (Cons p parts)
  then show ?case by (cases p) (auto split: option.splits)
qed

lemma lastToolCall_truthy: "lastToolCall stringify parts = Some c \<Longrightarrow> truthy c"
proof (induction parts)
  case Nil
  then show ?case by simp
next
  case (Cons p parts)
  then show ?case by (cases p) (auto split: option.splits)
qed

lemma assistant_message_converted:
  "convertMessage stringify toBase64 (Assistant parts pm) =
     Inr [spread [(''role'', JString ''assistant''),
                  (''content'', JString (concat (textsOf parts))),
                  (''tool_calls'',
                   (case lastToolCall stringify parts of
                      None \<Rightarrow> initialToolCalls
                    | Some c \<Rightarrow> c))]
                 (getSparkMetadata pm)]"
  by (auto simp: assistantParts_fold initialToolCalls_def
           split: option.splits dest: lastToolCall_truthy)

text \<open>
  C2, at the assistant message with the one text part \<open>hi\<close>. The one output message
  has the text as content, and a \<open>tool_calls\<close> property that is not absent: it is the
  placeholder object with an empty name and empty arguments the loop started from.
\<close>

theorem assistant_text_only_has_placeholder_tool_call:
  "convertToSparkChatMessages stringify toBase64 [Assistant [AText ''hi'' None] None]
   = Inr [[(''role'', JString ''assistant''),
           (''content'', JString ''hi''),
           (''tool_calls'',
            JObject [(''type'', JString ''function''),
                     (''function'', JObject [(''arguments'', JString ''''),
                                             (''name'', JString '''')])])]]"
  by (simp add: convertToSparkChatMessages_def spread_def ownProperties_def
        getSparkMetadata_def initialToolCalls_def)

end
